theory Spec2Isabelle
  imports Main "HOL-Library.Word"
begin

section \<open>Strings and numbers of the script\<close>

text \<open>
  A JavaScript string is a sequence of UTF-16 code units. Literals of \<^verbatim>\<open>src/script.js\<close>
  that are plain ASCII are written with \<open>lit\<close>; literals with other characters are given
  by the code units the file holds.
\<close>

type_synonym jsstring = "16 word list"

definition lit :: "string \<Rightarrow> jsstring" where
  "lit cs = map (\<lambda>c. of_char c) cs"

text \<open>
  Decimal rendering of an integer inside a template literal (\<^verbatim>\<open>`Page ${this.pageNum}`\<close>).
  Page numbers are integers far below \<open>10^21\<close>, where JavaScript prints all digits.
\<close>

fun digitsOf :: "nat \<Rightarrow> jsstring" where
  "digitsOf n =
     (if n < 10 then [of_nat (48 + n)]
      else digitsOf (n div 10) @ [of_nat (48 + n mod 10)])"

definition numberToString :: "int \<Rightarrow> jsstring" where
  "numberToString n =
     (if n < 0 then lit ''-'' @ digitsOf (nat (- n)) else digitsOf (nat n))"

section \<open>Text run post-processing (renderTextContent, lines 174-182)\<close>

text \<open>
  \<^verbatim>\<open>s.replace(/\uXXXX/g, r)\<close> with a one-code-unit pattern and a replacement without
  \<^verbatim>\<open>$\<close>: every occurrence of the unit, left to right, becomes \<open>r\<close>.
\<close>

primrec replaceAll :: "16 word \<Rightarrow> jsstring \<Rightarrow> jsstring \<Rightarrow> jsstring" where
  "replaceAll u r [] = []"
| "replaceAll u r (c # cs) =
     (if c = u then r @ replaceAll u r cs else c # replaceAll u r cs)"

text \<open>The three replacement literals of lines 177-179, as the file holds them.\<close>

definition enDashSub :: jsstring where
  "enDashSub = [0x201A, 0xC4, 0xEC]"

definition emDashSub :: jsstring where
  "emDashSub = [0x201A, 0xC4, 0xEE]"

definition figureDashSub :: jsstring where
  "figureDashSub = [0x201A, 0xC4, 0xEB]"

definition remapStr :: "jsstring \<Rightarrow> jsstring" where
  "remapStr s0 =
     (let s = s0;
          s = replaceAll 0x2013 enDashSub s;
          s = replaceAll 0x2014 emDashSub s;
          s = replaceAll 0x2012 figureDashSub s
      in s)"

text \<open>
  A text run of the library. Only \<open>str\<close> is read by the properties below; the spread
  \<^verbatim>\<open>{ ...item, str: s }\<close> keeps every other field, as the record update does.
\<close>

record text_item =
  str :: jsstring

definition processItem :: "text_item \<Rightarrow> text_item" where
  "processItem item = item\<lparr>str := remapStr (str item)\<rparr>"

section \<open>The reader object and the page around it\<close>

record pdf_document =
  fingerprint :: nat
  numPages :: int

datatype PDFPageProxy = PDFPageProxy (pageNumber: int)

record text_content_params =
  normalizeWhitespace :: bool
  disableCombineTextItems :: bool

text \<open>Calls into the PDF library, in the order the script makes them.\<close>

datatype lib_call =
    GetDocument "8 word list"
  | GetPage pdf_document int
  | GetTextContent PDFPageProxy text_content_params

text \<open>How a promise of the library settles.\<close>

datatype 'a settled = Fulfilled 'a | Rejected

datatype console_entry = ConsoleError jsstring | ConsoleLog jsstring

text \<open>A rendered text page: the page indicator and the text of each span.\<close>

record text_page =
  indicator :: jsstring
  spans :: "jsstring list"

text \<open>
  The fields of \<^verbatim>\<open>TextOnlyPDFReader\<close> (the first five) and what the script reads and
  writes around it: the children of \<^verbatim>\<open>#pdfContainer\<close>, the text of \<^verbatim>\<open>#pageInfo\<close>, the
  \<^verbatim>\<open>disabled\<close> property of the two buttons, whether the body has the class
  \<^verbatim>\<open>dark-mode\<close>, the item \<^verbatim>\<open>darkMode\<close> of localStorage, the text of
  \<^verbatim>\<open>#darkModeToggle\<close>, the console, the alerts shown and the library calls made.
  Positions, sizes, styles, the decorative particles, the constant field \<^verbatim>\<open>scale\<close> and
  the logging of selected text are not modelled.
\<close>

record reader =
  pdfDoc :: "pdf_document option"
  pageNum :: int
  pageRendering :: bool
  pageNumPending :: "int option"
  textContainer :: "text_page option"
  container :: "text_page list"
  pageInfo :: jsstring
  prevDisabled :: bool
  nextDisabled :: bool
  darkModeClass :: bool
  darkModeItem :: "jsstring option"
  darkModeBtn :: jsstring
  console :: "console_entry list"
  alerts :: "jsstring list"
  calls :: "lib_call list"

subsection \<open>updateUI (lines 242-256)\<close>

definition updateUI :: "reader \<Rightarrow> reader" where
  "updateUI s =
     (case pdfDoc s of
        Some d \<Rightarrow>
          s\<lparr>pageInfo := lit ''Page '' @ numberToString (pageNum s) @ lit '' of ''
                          @ numberToString (numPages d),
            prevDisabled := (pageNum s \<le> 1),
            nextDisabled := (pageNum s \<ge> numPages d)\<rparr>
      | None \<Rightarrow>
          s\<lparr>pageInfo := lit ''No PDF loaded'',
            prevDisabled := True,
            nextDisabled := True\<rparr>)"

subsection \<open>Dark mode (lines 258-282)\<close>

text \<open>The two literals of line 281, as the file holds them: the first is shown when the
  body has the class, the second otherwise.\<close>

definition sunGlyph :: jsstring where
  "sunGlyph = [0x201A, 0xF2, 0xC4, 0xD4, 0x220F, 0xE8]"

definition moonGlyph :: jsstring where
  "moonGlyph = [0xF8FF, 0xFC, 0xE5, 0xF4]"

definition updateDarkModeButton :: "reader \<Rightarrow> reader" where
  "updateDarkModeButton s =
     (let isDarkMode = darkModeClass s
      in s\<lparr>darkModeBtn := (if isDarkMode then sunGlyph else moonGlyph)\<rparr>)"

text \<open>\<^verbatim>\<open>localStorage.getItem('darkMode') === 'true'\<close>: the persisted boolean.\<close>

definition savedDarkMode :: "reader \<Rightarrow> bool" where
  "savedDarkMode s = (darkModeItem s = Some (lit ''true''))"

definition initDarkMode :: "reader \<Rightarrow> reader" where
  "initDarkMode s =
     updateDarkModeButton (if savedDarkMode s then s\<lparr>darkModeClass := True\<rparr> else s)"

text \<open>\<^verbatim>\<open>localStorage.setItem('darkMode', isDarkMode)\<close> stores the boolean as a string.\<close>

definition toggleDarkMode :: "reader \<Rightarrow> reader" where
  "toggleDarkMode s =
     (let s1 = s\<lparr>darkModeClass := \<not> darkModeClass s\<rparr>;
          isDarkMode = darkModeClass s1;
          s2 = s1\<lparr>darkModeItem := Some (if isDarkMode then lit ''true'' else lit ''false'')\<rparr>
      in updateDarkModeButton s2)"

subsection \<open>renderCurrentPage and navigateToPage (lines 110-163, 221-235)\<close>

text \<open>
  \<^verbatim>\<open>renderCurrentPage\<close> is an async function: a call runs to its first \<^verbatim>\<open>await\<close> and
  parks there; the rest runs when the awaited promise of the library settles. The three
  parts are \<open>renderCurrentPage\<close> (the call, up to \<^verbatim>\<open>await this.pdfDoc.getPage\<close>),
  \<open>renderCurrentPage_gotPage\<close> (from there to \<^verbatim>\<open>await page.getTextContent\<close> inside
  \<^verbatim>\<open>renderTextContent\<close>) and \<open>renderCurrentPage_gotText\<close> (the rest). The library
  reports failure by rejecting the promise.
\<close>

definition renderCurrentPage :: "reader \<Rightarrow> reader" where
  "renderCurrentPage s =
     (case pdfDoc s of
        None \<Rightarrow> s
      | Some d \<Rightarrow>
          if pageRendering s then s
          else s\<lparr>pageRendering := True, calls := calls s @ [GetPage d (pageNum s)]\<rparr>)"

definition navigateToPage :: "reader \<Rightarrow> int \<Rightarrow> reader" where
  "navigateToPage s n =
     (case pdfDoc s of
        None \<Rightarrow> s
      | Some d \<Rightarrow>
          if n < 1 \<or> n > numPages d then s
          else if pageRendering s then s\<lparr>pageNumPending := Some n\<rparr>
          else updateUI (renderCurrentPage (s\<lparr>pageNum := n\<rparr>)))"

text \<open>The \<^verbatim>\<open>finally\<close> block (lines 153-162).\<close>

definition renderCurrentPage_finally :: "reader \<Rightarrow> reader" where
  "renderCurrentPage_finally s =
     (let s1 = s\<lparr>pageRendering := False\<rparr>
      in case pageNumPending s1 of
           None \<Rightarrow> s1
         | Some pendingPage \<Rightarrow> navigateToPage (s1\<lparr>pageNumPending := None\<rparr>) pendingPage)"

text \<open>The options of the text-content request (lines 168-171).\<close>

definition textContentParams :: text_content_params where
  "textContentParams = \<lparr>normalizeWhitespace = True, disableCombineTextItems = False\<rparr>"

text \<open>The page indicator literal of line 128, as the file holds it.\<close>

definition pageIndicatorText :: "int \<Rightarrow> jsstring" where
  "pageIndicatorText n = lit ''P'' @ [0x221A, 0xB0] @ lit ''gina '' @ numberToString n"

definition renderCurrentPage_gotPage :: "reader \<Rightarrow> PDFPageProxy settled \<Rightarrow> reader" where
  "renderCurrentPage_gotPage s r =
     (case r of
        Rejected \<Rightarrow>
          renderCurrentPage_finally
            (s\<lparr>console := console s @ [ConsoleError (lit ''Error rendering page:'')]\<rparr>)
      | Fulfilled page \<Rightarrow>
          s\<lparr>container := [],
            textContainer := Some \<lparr>indicator = pageIndicatorText (pageNum s), spans = []\<rparr>,
            calls := calls s @ [GetTextContent page textContentParams]\<rparr>)"

text \<open>
  The rest of \<^verbatim>\<open>renderTextContent\<close> (lines 174-218): its own \<^verbatim>\<open>catch\<close> logs a
  rejected request and returns normally. Appending to a missing text container throws
  inside the same \<^verbatim>\<open>try\<close>, after the text was logged.
\<close>

definition renderTextContent_gotText :: "reader \<Rightarrow> text_item list settled \<Rightarrow> reader" where
  "renderTextContent_gotText s r =
     (case r of
        Rejected \<Rightarrow>
          s\<lparr>console := console s @ [ConsoleError (lit ''Error rendering text content:'')]\<rparr>
      | Fulfilled items \<Rightarrow>
          (let processedItems = map processItem items;
               text = concat (map str processedItems);
               s1 = s\<lparr>console := console s @ [ConsoleLog text]\<rparr>
           in case textContainer s1 of
                Some tc \<Rightarrow>
                  s1\<lparr>textContainer := Some (tc\<lparr>spans := spans tc @ map str processedItems\<rparr>)\<rparr>
              | None \<Rightarrow>
                  if processedItems = [] then s1
                  else s1\<lparr>console := console s1
                            @ [ConsoleError (lit ''Error rendering text content:'')]\<rparr>))"

text \<open>
  Back in \<^verbatim>\<open>renderCurrentPage\<close>: the wrapper around the text container is appended to
  the container (line 149), then the \<^verbatim>\<open>finally\<close> block runs. The text container is
  the one \<open>renderCurrentPage_gotPage\<close> created in the same cycle: this part only runs
  after it, and no other code assigns the field.
\<close>

definition renderCurrentPage_gotText :: "reader \<Rightarrow> text_item list settled \<Rightarrow> reader" where
  "renderCurrentPage_gotText s r =
     (let s1 = renderTextContent_gotText s r;
          s2 = (case textContainer s1 of
                  Some tc \<Rightarrow> s1\<lparr>container := container s1 @ [tc]\<rparr>
                | None \<Rightarrow> s1)
      in renderCurrentPage_finally s2)"

subsection \<open>loadPDF (lines 75-99)\<close>

text \<open>
  \<^verbatim>\<open>loadPDF\<close> parks at \<^verbatim>\<open>await this.fileToArrayBuffer(file)\<close>, at
  \<^verbatim>\<open>await loadingTask.promise\<close> and at \<^verbatim>\<open>await this.renderCurrentPage()\<close>. Its
  \<^verbatim>\<open>catch\<close> block is \<open>loadPDF_catch\<close>.
\<close>

definition loadPDF_catch :: "reader \<Rightarrow> reader" where
  "loadPDF_catch s =
     s\<lparr>console := console s @ [ConsoleError (lit ''Error loading PDF:'')],
       alerts := alerts s @ [lit ''Error loading PDF file. Please try another file.'']\<rparr>"

definition loadPDF_gotBuffer :: "reader \<Rightarrow> 8 word list settled \<Rightarrow> reader" where
  "loadPDF_gotBuffer s r =
     (case r of
        Rejected \<Rightarrow> loadPDF_catch s
      | Fulfilled typedArray \<Rightarrow> s\<lparr>calls := calls s @ [GetDocument typedArray]\<rparr>)"

text \<open>
  When the document promise settles: on success the handle and the page number are
  assigned and \<open>renderCurrentPage\<close> is called. If that call returns at its guard, the
  \<^verbatim>\<open>await\<close> resumes at once and \<open>updateUI\<close> runs; if it started a render, \<open>updateUI\<close>
  runs when that render has completed (\<open>loadPDF_rendered\<close>).
\<close>

definition loadPDF_gotDocument :: "reader \<Rightarrow> pdf_document settled \<Rightarrow> reader" where
  "loadPDF_gotDocument s r =
     (case r of
        Rejected \<Rightarrow> loadPDF_catch s
      | Fulfilled doc \<Rightarrow>
          (let s1 = s\<lparr>pdfDoc := Some doc, pageNum := 1\<rparr>
           in if pageRendering s1 then updateUI (renderCurrentPage s1)
              else renderCurrentPage s1))"

definition loadPDF_rendered :: "reader \<Rightarrow> reader" where
  "loadPDF_rendered s = updateUI s"

subsection \<open>The constructor (lines 31-44)\<close>

text \<open>The argument is the page as loaded, before the script has run.\<close>

definition constructor :: "reader \<Rightarrow> reader" where
  "constructor page =
     updateUI (initDarkMode
       (page\<lparr>pdfDoc := None, pageNum := 1, pageRendering := False,
             pageNumPending := None, textContainer := None\<rparr>))"

section \<open>The event loop\<close>

text \<open>
  Besides the reader, the running page holds the parked async calls: at most one
  \<^verbatim>\<open>renderCurrentPage\<close> (with the flag telling whether a \<^verbatim>\<open>loadPDF\<close> awaits it) and any
  number of \<^verbatim>\<open>loadPDF\<close> calls waiting for the file reader or for the document.
\<close>

datatype render_await = AwaitGetPage bool | AwaitGetTextContent bool

record system =
  rd :: reader
  renderTask :: "render_await option"
  loadsReading :: nat
  loadsOpening :: nat

text \<open>
  What can happen next: the user picks a file (or none), a file read or a library promise
  settles, \<open>navigateToPage\<close> is called (the two buttons call it with the neighbouring
  pages), the dark-mode button is clicked. \<open>fire\<close> gives \<open>None\<close> for a promise that
  nothing waits for. Each handler and each continuation runs to its next \<^verbatim>\<open>await\<close>
  without interleaving.
\<close>

datatype event =
    FileSelected "nat option"
  | FileRead "8 word list settled"
  | DocumentOpened "pdf_document settled"
  | NavigateTo int
  | PrevClicked
  | NextClicked
  | GotPage "PDFPageProxy settled"
  | GotTextContent "text_item list settled"
  | DarkModeToggleClicked

definition navigated :: "system \<Rightarrow> int \<Rightarrow> system" where
  "navigated sys n =
     (let s' = navigateToPage (rd sys) n
      in sys\<lparr>rd := s',
             renderTask := (if \<not> pageRendering (rd sys) \<and> pageRendering s'
                            then Some (AwaitGetPage False) else renderTask sys)\<rparr>)"

definition completed :: "system \<Rightarrow> bool \<Rightarrow> reader \<Rightarrow> system" where
  "completed sys awaited s' =
     sys\<lparr>rd := (if awaited then loadPDF_rendered s' else s'),
         renderTask := (if pageRendering s' then Some (AwaitGetPage False) else None)\<rparr>"

fun fire :: "system \<Rightarrow> event \<Rightarrow> system option" where
  "fire sys (FileSelected None) = Some sys"
| "fire sys (FileSelected (Some f)) = Some (sys\<lparr>loadsReading := loadsReading sys + 1\<rparr>)"
| "fire sys (FileRead r) =
     (if loadsReading sys = 0 then None
      else Some (sys\<lparr>rd := loadPDF_gotBuffer (rd sys) r,
                     loadsReading := loadsReading sys - 1,
                     loadsOpening := (case r of Fulfilled b \<Rightarrow> loadsOpening sys + 1
                                 | Rejected \<Rightarrow> loadsOpening sys)\<rparr>))"
| "fire sys (DocumentOpened r) =
     (if loadsOpening sys = 0 then None
      else Some (sys\<lparr>rd := loadPDF_gotDocument (rd sys) r,
                     renderTask := (case r of
                                      Fulfilled doc \<Rightarrow>
                                        if pageRendering (rd sys) then renderTask sys
                                        else Some (AwaitGetPage True)
                                    | Rejected \<Rightarrow> renderTask sys),
                     loadsOpening := loadsOpening sys - 1\<rparr>))"
| "fire sys (NavigateTo n) = Some (navigated sys n)"
| "fire sys PrevClicked = Some (navigated sys (pageNum (rd sys) - 1))"
| "fire sys NextClicked = Some (navigated sys (pageNum (rd sys) + 1))"
| "fire sys (GotPage r) =
     (case renderTask sys of
        Some (AwaitGetPage awaited) \<Rightarrow>
          (case r of
             Fulfilled page \<Rightarrow>
               Some (sys\<lparr>rd := renderCurrentPage_gotPage (rd sys) r,
                         renderTask := Some (AwaitGetTextContent awaited)\<rparr>)
           | Rejected \<Rightarrow> Some (completed sys awaited (renderCurrentPage_gotPage (rd sys) r)))
      | _ \<Rightarrow> None)"
| "fire sys (GotTextContent r) =
     (case renderTask sys of
        Some (AwaitGetTextContent awaited) \<Rightarrow>
          Some (completed sys awaited (renderCurrentPage_gotText (rd sys) r))
      | _ \<Rightarrow> None)"
| "fire sys DarkModeToggleClicked = Some (sys\<lparr>rd := toggleDarkMode (rd sys)\<rparr>)"

fun run :: "system \<Rightarrow> event list \<Rightarrow> system option" where
  "run sys [] = Some sys"
| "run sys (e # es) = (case fire sys e of None \<Rightarrow> None | Some sys' \<Rightarrow> run sys' es)"

definition start :: "reader \<Rightarrow> system" where
  "start page = \<lparr>rd = constructor page, renderTask = None, loadsReading = 0, loadsOpening = 0\<rparr>"

section \<open>Reference definitions and sample states\<close>

text \<open>
  The substitution table read as one map on code units: the three dash variants go to
  their replacement, every other unit to itself.
\<close>

definition substUnit :: "16 word \<Rightarrow> jsstring" where
  "substUnit c =
     (if c = 0x2013 then enDashSub
      else if c = 0x2014 then emDashSub
      else if c = 0x2012 then figureDashSub
      else [c])"

text \<open>
  The reading under which only the en dash is touched: each en dash becomes its
  replacement and every other code unit stays.
\<close>

definition enDashOnly :: "jsstring \<Rightarrow> jsstring" where
  "enDashOnly s = concat (map (\<lambda>c. if c = 0x2013 then enDashSub else [c]) s)"

text \<open>
  Sample states: an empty page before the script runs, a three-page document, the
  reader holding that document on page 1 with no render running (\<open>idle3\<close>), and the
  same reader after \<open>renderCurrentPage\<close> was called (\<open>busy3\<close>).
\<close>

definition blankPage :: reader where
  "blankPage =
     \<lparr>pdfDoc = None, pageNum = 0, pageRendering = False, pageNumPending = None,
      textContainer = None, container = [], pageInfo = [], prevDisabled = False,
      nextDisabled = False, darkModeClass = False, darkModeItem = None, darkModeBtn = [],
      console = [], alerts = [], calls = []\<rparr>"

definition doc3 :: pdf_document where
  "doc3 = \<lparr>fingerprint = 0, numPages = 3\<rparr>"

definition idle3 :: reader where
  "idle3 = updateUI ((constructor blankPage)\<lparr>pdfDoc := Some doc3\<rparr>)"

definition busy3 :: reader where
  "busy3 = renderCurrentPage idle3"


section \<open>Auxiliary facts\<close>

lemma replaceAll_append:
  "replaceAll u r (xs @ ys) = replaceAll u r xs @ replaceAll u r ys"
  by (induction xs) simp_all

lemma remapStr_Nil: "remapStr [] = []"
  by (simp add: remapStr_def)

lemma remapStr_Cons: "remapStr (c # cs) = substUnit c @ remapStr cs"
  by (simp add: remapStr_def substUnit_def replaceAll_append enDashSub_def emDashSub_def
      figureDashSub_def)

lemma lit_true_false: "lit ''true'' \<noteq> lit ''false''"
  by (simp add: lit_def)

lemma constructor_blankPage:
  "pdfDoc (constructor blankPage) = None" "\<not> pageRendering (constructor blankPage)"
  "\<not> darkModeClass (constructor blankPage)" "\<not> savedDarkMode (constructor blankPage)"
  by (simp_all add: constructor_def updateUI_def initDarkMode_def updateDarkModeButton_def
      savedDarkMode_def blankPage_def)

lemma idle3_fields:
  "pdfDoc idle3 = Some doc3" "\<not> pageRendering idle3" "pageNum idle3 = 1"
  by (simp_all add: idle3_def constructor_def updateUI_def initDarkMode_def
      updateDarkModeButton_def savedDarkMode_def blankPage_def)

lemma busy3_fields:
  "pdfDoc busy3 = Some doc3" "pageRendering busy3" "pageNumPending busy3 = None"
  "console busy3 = []"
  by (simp_all add: busy3_def idle3_def renderCurrentPage_def constructor_def updateUI_def
      initDarkMode_def updateDarkModeButton_def savedDarkMode_def blankPage_def)

lemma numPages_doc3: "numPages doc3 = 3"
  by (simp add: doc3_def)

lemma updateUI_fields [simp]:
  "pdfDoc (updateUI s) = pdfDoc s" "pageNum (updateUI s) = pageNum s"
  "pageRendering (updateUI s) = pageRendering s"
  "pageNumPending (updateUI s) = pageNumPending s"
  "calls (updateUI s) = calls s" "console (updateUI s) = console s"
  "alerts (updateUI s) = alerts s" "container (updateUI s) = container s"
  "textContainer (updateUI s) = textContainer s"
  "darkModeClass (updateUI s) = darkModeClass s" "darkModeItem (updateUI s) = darkModeItem s"
  by (simp_all add: updateUI_def split: option.splits)

text \<open>The \<^verbatim>\<open>finally\<close> block, by whether a page is pending.\<close>

lemma finally_no_pending:
  "pageNumPending s = None \<Longrightarrow> renderCurrentPage_finally s = s\<lparr>pageRendering := False\<rparr>"
  by (simp add: renderCurrentPage_finally_def)

lemma finally_pending:
  "pageNumPending s = Some p \<Longrightarrow>
   renderCurrentPage_finally s =
     navigateToPage (s\<lparr>pageRendering := False, pageNumPending := None\<rparr>) p"
  by (simp add: renderCurrentPage_finally_def)

lemma navigateToPage_released:
  "navigateToPage (s\<lparr>pageRendering := False, pageNumPending := None\<rparr>) p =
     (case pdfDoc s of
        None \<Rightarrow> s\<lparr>pageRendering := False, pageNumPending := None\<rparr>
      | Some d \<Rightarrow>
          if 1 \<le> p \<and> p \<le> numPages d
          then updateUI (s\<lparr>pageRendering := True, pageNumPending := None, pageNum := p,
                           calls := calls s @ [GetPage d p]\<rparr>)
          else s\<lparr>pageRendering := False, pageNumPending := None\<rparr>)"
  by (cases s) (auto simp: navigateToPage_def renderCurrentPage_def split: option.splits)

lemma finally_fields:
  "pageNumPending (renderCurrentPage_finally s) = None"
  "pdfDoc (renderCurrentPage_finally s) = pdfDoc s"
  "console (renderCurrentPage_finally s) = console s"
  "pageRendering (renderCurrentPage_finally s) =
     (case (pdfDoc s, pageNumPending s) of
        (Some d, Some p) \<Rightarrow> 1 \<le> p \<and> p \<le> numPages d | _ \<Rightarrow> False)"
  "calls (renderCurrentPage_finally s) =
     (case (pdfDoc s, pageNumPending s) of
        (Some d, Some p) \<Rightarrow>
          if 1 \<le> p \<and> p \<le> numPages d then calls s @ [GetPage d p] else calls s
      | _ \<Rightarrow> calls s)"
  "pageNum (renderCurrentPage_finally s) =
     (case (pdfDoc s, pageNumPending s) of
        (Some d, Some p) \<Rightarrow> if 1 \<le> p \<and> p \<le> numPages d then p else pageNum s
      | _ \<Rightarrow> pageNum s)"
  by (cases "pageNumPending s"; cases "pdfDoc s";
      simp add: finally_no_pending finally_pending navigateToPage_released)+

lemma finally_container:
  "container (renderCurrentPage_finally s) = container s"
  "textContainer (renderCurrentPage_finally s) = textContainer s"
  "darkModeClass (renderCurrentPage_finally s) = darkModeClass s"
  "darkModeItem (renderCurrentPage_finally s) = darkModeItem s"
  by (cases "pageNumPending s"; cases "pdfDoc s";
      simp add: finally_no_pending finally_pending navigateToPage_released)+

lemma finally_calls_pending:
  "pageNumPending s = Some p \<Longrightarrow> pdfDoc s = Some d \<Longrightarrow>
   calls (renderCurrentPage_finally s) =
     calls s @ (if 1 \<le> p \<and> p \<le> numPages d then [GetPage d p] else [])"
  by (simp add: finally_fields)

lemma gotText_body_fields:
  "pdfDoc (renderTextContent_gotText s r) = pdfDoc s"
  "pageNum (renderTextContent_gotText s r) = pageNum s"
  "pageNumPending (renderTextContent_gotText s r) = pageNumPending s"
  "calls (renderTextContent_gotText s r) = calls s"
  "darkModeClass (renderTextContent_gotText s r) = darkModeClass s"
  "darkModeItem (renderTextContent_gotText s r) = darkModeItem s"
  by (simp_all add: renderTextContent_gotText_def Let_def split: settled.splits option.splits)

lemma gotText_fields:
  "pageNumPending (renderCurrentPage_gotText s r) = None"
  "pdfDoc (renderCurrentPage_gotText s r) = pdfDoc s"
  "pageRendering (renderCurrentPage_gotText s r) =
     (case (pdfDoc s, pageNumPending s) of
        (Some d, Some p) \<Rightarrow> 1 \<le> p \<and> p \<le> numPages d | _ \<Rightarrow> False)"
  "calls (renderCurrentPage_gotText s r) =
     (case (pdfDoc s, pageNumPending s) of
        (Some d, Some p) \<Rightarrow>
          if 1 \<le> p \<and> p \<le> numPages d then calls s @ [GetPage d p] else calls s
      | _ \<Rightarrow> calls s)"
  "pageNum (renderCurrentPage_gotText s r) =
     (case (pdfDoc s, pageNumPending s) of
        (Some d, Some p) \<Rightarrow> if 1 \<le> p \<and> p \<le> numPages d then p else pageNum s
      | _ \<Rightarrow> pageNum s)"
  by (simp_all add: renderCurrentPage_gotText_def Let_def finally_fields gotText_body_fields
      split: option.splits)

lemma gotPage_Rejected_fields:
  "pageNumPending (renderCurrentPage_gotPage s Rejected) = None"
  "pdfDoc (renderCurrentPage_gotPage s Rejected) = pdfDoc s"
  "console (renderCurrentPage_gotPage s Rejected) =
     console s @ [ConsoleError (lit ''Error rendering page:'')]"
  "pageRendering (renderCurrentPage_gotPage s Rejected) =
     (case (pdfDoc s, pageNumPending s) of
        (Some d, Some p) \<Rightarrow> 1 \<le> p \<and> p \<le> numPages d | _ \<Rightarrow> False)"
  "calls (renderCurrentPage_gotPage s Rejected) =
     (case (pdfDoc s, pageNumPending s) of
        (Some d, Some p) \<Rightarrow>
          if 1 \<le> p \<and> p \<le> numPages d then calls s @ [GetPage d p] else calls s
      | _ \<Rightarrow> calls s)"
  "pageNum (renderCurrentPage_gotPage s Rejected) =
     (case (pdfDoc s, pageNumPending s) of
        (Some d, Some p) \<Rightarrow> if 1 \<le> p \<and> p \<le> numPages d then p else pageNum s
      | _ \<Rightarrow> pageNum s)"
  by (simp_all add: renderCurrentPage_gotPage_def finally_fields split: option.splits)

lemma gotPage_Fulfilled_fields:
  "pdfDoc (renderCurrentPage_gotPage s (Fulfilled pg)) = pdfDoc s"
  "pageNum (renderCurrentPage_gotPage s (Fulfilled pg)) = pageNum s"
  "pageRendering (renderCurrentPage_gotPage s (Fulfilled pg)) = pageRendering s"
  "pageNumPending (renderCurrentPage_gotPage s (Fulfilled pg)) = pageNumPending s"
  "calls (renderCurrentPage_gotPage s (Fulfilled pg)) =
     calls s @ [GetTextContent pg textContentParams]"
  by (simp_all add: renderCurrentPage_gotPage_def)

text \<open>Requests that arrive while a render runs only overwrite the pending slot.\<close>

lemma navigateToPage_rendering:
  "pdfDoc s = Some d \<Longrightarrow> pageRendering s \<Longrightarrow> 1 \<le> p \<Longrightarrow> p \<le> numPages d \<Longrightarrow>
   navigateToPage s p = s\<lparr>pageNumPending := Some p\<rparr>"
  by (simp add: navigateToPage_def)

lemma foldl_navigateToPage_rendering:
  "pdfDoc s = Some d \<Longrightarrow> pageRendering s \<Longrightarrow> \<forall>p\<in>set ps. 1 \<le> p \<and> p \<le> numPages d \<Longrightarrow>
   foldl navigateToPage s ps = (if ps = [] then s else s\<lparr>pageNumPending := Some (last ps)\<rparr>)"
proof (induction ps arbitrary: s)
  case Nil
  then show ?case by simp
next
  case (Cons p ps)
  have step: "navigateToPage s p = s\<lparr>pageNumPending := Some p\<rparr>"
    using Cons.prems by (simp add: navigateToPage_rendering)
  have "foldl navigateToPage (s\<lparr>pageNumPending := Some p\<rparr>) ps =
        (if ps = [] then s\<lparr>pageNumPending := Some p\<rparr>
         else s\<lparr>pageNumPending := Some p\<rparr>\<lparr>pageNumPending := Some (last ps)\<rparr>)"
    using Cons.prems by (intro Cons.IH) simp_all
  then show ?case by (simp add: step)
qed

text \<open>
  The invariant of the event loop: a page is pending only while the flag is set, and a
  render call is parked exactly while the flag is set. Every event keeps it.
\<close>

lemma navigateToPage_flag:
  "pageRendering s \<Longrightarrow> pageRendering (navigateToPage s n)"
  "pageNumPending s \<noteq> None \<longrightarrow> pageRendering s \<Longrightarrow>
   pageNumPending (navigateToPage s n) \<noteq> None \<longrightarrow> pageRendering (navigateToPage s n)"
  by (auto simp: navigateToPage_def renderCurrentPage_def split: option.splits)

lemma loadPDF_flag:
  "pageRendering (loadPDF_gotBuffer s r) = pageRendering s"
  "pageNumPending (loadPDF_gotBuffer s r) = pageNumPending s"
  "pageNumPending (loadPDF_gotDocument s r2) = pageNumPending s"
  "pageRendering (loadPDF_gotDocument s r2) = (pageRendering s \<or> r2 \<noteq> Rejected)"
  by (auto simp: loadPDF_gotBuffer_def loadPDF_gotDocument_def loadPDF_catch_def
      renderCurrentPage_def Let_def split: settled.splits)

lemma toggleDarkMode_flag:
  "pageRendering (toggleDarkMode s) = pageRendering s"
  "pageNumPending (toggleDarkMode s) = pageNumPending s"
  by (simp_all add: toggleDarkMode_def updateDarkModeButton_def Let_def)

lemma navigated_inv:
  assumes "pageNumPending (rd sys) \<noteq> None \<longrightarrow> pageRendering (rd sys)"
    and "(renderTask sys \<noteq> None) = pageRendering (rd sys)"
  shows "(pageNumPending (rd (navigated sys n)) \<noteq> None \<longrightarrow> pageRendering (rd (navigated sys n)))
       \<and> (renderTask (navigated sys n) \<noteq> None) = pageRendering (rd (navigated sys n))"
  using assms navigateToPage_flag [of "rd sys" n]
  by (auto simp: navigated_def Let_def)

lemma completed_inv:
  assumes "pageNumPending s' = None"
  shows "(pageNumPending (rd (completed sys aw s')) \<noteq> None
            \<longrightarrow> pageRendering (rd (completed sys aw s')))
       \<and> (renderTask (completed sys aw s') \<noteq> None) = pageRendering (rd (completed sys aw s'))"
  using assms by (simp add: completed_def loadPDF_rendered_def)

lemma fire_inv:
  assumes f: "fire sys e = Some sys'"
    and p: "pageNumPending (rd sys) \<noteq> None \<longrightarrow> pageRendering (rd sys)"
    and t: "(renderTask sys \<noteq> None) = pageRendering (rd sys)"
  shows "(pageNumPending (rd sys') \<noteq> None \<longrightarrow> pageRendering (rd sys'))
       \<and> (renderTask sys' \<noteq> None) = pageRendering (rd sys')"
proof (cases e)
  case (FileSelected x)
  with f p t show ?thesis by (cases x) auto
next
  case (FileRead r)
  with f p t show ?thesis by (auto simp: loadPDF_flag split: if_splits)
next
  case (DocumentOpened r)
  with f p t show ?thesis by (auto simp: loadPDF_flag split: if_splits settled.splits)
next
  case (NavigateTo n)
  with f navigated_inv [OF p t, of n] show ?thesis by auto
next
  case PrevClicked
  with f navigated_inv [OF p t, of "pageNum (rd sys) - 1"] show ?thesis by auto
next
  case NextClicked
  with f navigated_inv [OF p t, of "pageNum (rd sys) + 1"] show ?thesis by auto
next
  case (GotPage r)
  show ?thesis
  proof (cases r)
    case (Fulfilled pg)
    with f p t GotPage show ?thesis
      by (auto simp: gotPage_Fulfilled_fields split: option.splits render_await.splits)
  next
    case Rejected
    with f GotPage obtain aw
      where "sys' = completed sys aw (renderCurrentPage_gotPage (rd sys) Rejected)"
      by (auto split: option.splits render_await.splits)
    then show ?thesis using completed_inv [OF gotPage_Rejected_fields(1)] by simp
  qed
next
  case (GotTextContent r)
  with f obtain aw where "sys' = completed sys aw (renderCurrentPage_gotText (rd sys) r)"
    by (auto split: option.splits render_await.splits)
  then show ?thesis using completed_inv [OF gotText_fields(1)] by simp
next
  case DarkModeToggleClicked
  with f p t show ?thesis by (auto simp: toggleDarkMode_flag)
qed

lemma run_inv:
  "run sys es = Some sys' \<Longrightarrow>
   pageNumPending (rd sys) \<noteq> None \<longrightarrow> pageRendering (rd sys) \<Longrightarrow>
   (renderTask sys \<noteq> None) = pageRendering (rd sys) \<Longrightarrow>
   (pageNumPending (rd sys') \<noteq> None \<longrightarrow> pageRendering (rd sys'))
   \<and> (renderTask sys' \<noteq> None) = pageRendering (rd sys')"
proof (induction es arbitrary: sys)
  case Nil
  then show ?case by simp
next
  case (Cons e es)
  from Cons.prems(1) obtain m where m: "fire sys e = Some m" and r: "run m es = Some sys'"
    by (auto split: option.splits)
  from fire_inv [OF m Cons.prems(2) Cons.prems(3)] Cons.IH [OF r] show ?case by blast
qed

lemma start_inv:
  "pageNumPending (rd (start page)) = None" "\<not> pageRendering (rd (start page))"
  "renderTask (start page) = None"
  by (simp_all add: start_def constructor_def initDarkMode_def updateDarkModeButton_def)

text \<open>
  The stored preference and the class of the body: only \<open>toggleDarkMode\<close> writes either,
  and it leaves them equal; \<open>initDarkMode\<close> makes them equal on a body that starts
  without the class. So they are equal in every state the event loop reaches from there.
\<close>

lemma navigateToPage_dark:
  "darkModeClass (navigateToPage s n) = darkModeClass s"
  "darkModeItem (navigateToPage s n) = darkModeItem s"
  by (simp_all add: navigateToPage_def renderCurrentPage_def split: option.splits)

lemma loadPDF_dark:
  "darkModeClass (loadPDF_gotBuffer s r) = darkModeClass s"
  "darkModeItem (loadPDF_gotBuffer s r) = darkModeItem s"
  "darkModeClass (loadPDF_gotDocument s r2) = darkModeClass s"
  "darkModeItem (loadPDF_gotDocument s r2) = darkModeItem s"
  by (simp_all add: loadPDF_gotBuffer_def loadPDF_gotDocument_def loadPDF_catch_def
      renderCurrentPage_def Let_def split: settled.splits)

lemma render_dark:
  "darkModeClass (renderCurrentPage_gotPage s r) = darkModeClass s"
  "darkModeItem (renderCurrentPage_gotPage s r) = darkModeItem s"
  "darkModeClass (renderCurrentPage_gotText s r2) = darkModeClass s"
  "darkModeItem (renderCurrentPage_gotText s r2) = darkModeItem s"
  by (simp_all add: renderCurrentPage_gotPage_def renderCurrentPage_gotText_def Let_def
      finally_container gotText_body_fields split: settled.splits option.splits)

lemma toggleDarkMode_in_step:
  "savedDarkMode (toggleDarkMode s) = darkModeClass (toggleDarkMode s)"
  using lit_true_false
  by (simp add: toggleDarkMode_def updateDarkModeButton_def savedDarkMode_def Let_def)

lemma completed_dark:
  "darkModeClass (rd (completed sys aw s')) = darkModeClass s'"
  "darkModeItem (rd (completed sys aw s')) = darkModeItem s'"
  by (simp_all add: completed_def loadPDF_rendered_def)

lemma fire_dark:
  assumes f: "fire sys e = Some sys'"
    and i: "savedDarkMode (rd sys) = darkModeClass (rd sys)"
  shows "savedDarkMode (rd sys') = darkModeClass (rd sys')"
proof (cases e)
  case (FileSelected x)
  with f i show ?thesis by (cases x) auto
next
  case (FileRead r)
  with f i show ?thesis by (auto simp: savedDarkMode_def loadPDF_dark split: if_splits)
next
  case (DocumentOpened r)
  with f i show ?thesis by (auto simp: savedDarkMode_def loadPDF_dark split: if_splits)
next
  case (NavigateTo n)
  with f i show ?thesis by (auto simp: savedDarkMode_def navigated_def navigateToPage_dark Let_def)
next
  case PrevClicked
  with f i show ?thesis by (auto simp: savedDarkMode_def navigated_def navigateToPage_dark Let_def)
next
  case NextClicked
  with f i show ?thesis by (auto simp: savedDarkMode_def navigated_def navigateToPage_dark Let_def)
next
  case (GotPage r)
  with f i show ?thesis
    by (auto simp: savedDarkMode_def completed_dark render_dark
        split: option.splits render_await.splits settled.splits)
next
  case (GotTextContent r)
  with f i show ?thesis
    by (auto simp: savedDarkMode_def completed_dark render_dark
        split: option.splits render_await.splits)
next
  case DarkModeToggleClicked
  with f show ?thesis by (auto simp: toggleDarkMode_in_step)
qed

lemma run_dark:
  "run sys es = Some sys' \<Longrightarrow> savedDarkMode (rd sys) = darkModeClass (rd sys) \<Longrightarrow>
   savedDarkMode (rd sys') = darkModeClass (rd sys')"
proof (induction es arbitrary: sys)
  case Nil
  then show ?case by simp
next
  case (Cons e es)
  from Cons.prems(1) obtain m where m: "fire sys e = Some m" and r: "run m es = Some sys'"
    by (auto split: option.splits)
  from Cons.IH [OF r fire_dark [OF m Cons.prems(2)]] show ?case .
qed

lemma start_dark:
  "\<not> darkModeClass page \<Longrightarrow>
   savedDarkMode (rd (start page)) = darkModeClass (rd (start page))"
  by (simp add: start_def constructor_def initDarkMode_def updateDarkModeButton_def
      savedDarkMode_def Let_def)

lemma sample_logs:
  "alerts idle3 = []" "calls busy3 = [GetPage doc3 1]" "pageNum busy3 = 1"
  by (simp_all add: busy3_def idle3_def renderCurrentPage_def constructor_def updateUI_def
      initDarkMode_def updateDarkModeButton_def savedDarkMode_def blankPage_def)

lemma navigateToPage_sets_pageNum:
  "pdfDoc s = Some d \<Longrightarrow> \<not> pageRendering s \<Longrightarrow> 1 \<le> n \<Longrightarrow> n \<le> numPages d \<Longrightarrow>
   pageNum (navigateToPage s n) = n"
  by (simp add: navigateToPage_def renderCurrentPage_def)

section \<open>Navigation\<close>

text \<open>
  C1. With a document of \<open>N\<close> pages held and no render in progress, \<open>navigateToPage P\<close>
  sets the current page number to \<open>P\<close> when \<open>1 \<le> P \<le> N\<close> (and starts the render of that
  page and refreshes the controls); for \<open>P < 1\<close> or \<open>P > N\<close> it returns the state as it
  was: page number, flags, console and alerts are all unchanged.
\<close>

theorem navigateToPage_idle:
  assumes "pdfDoc s = Some d" and "\<not> pageRendering s"
  shows "(1 \<le> n \<and> n \<le> numPages d \<longrightarrow>
            pageNum (navigateToPage s n) = n
          \<and> navigateToPage s n =
              updateUI (s\<lparr>pageNum := n, pageRendering := True,
                          calls := calls s @ [GetPage d n]\<rparr>))
       \<and> (n < 1 \<or> n > numPages d \<longrightarrow> navigateToPage s n = s)"
  using assms by (simp add: navigateToPage_def renderCurrentPage_def)

theorem navigateToPage_idle_witness:
  "pageNum (navigateToPage idle3 2) = 2 \<and> navigateToPage idle3 0 = idle3
   \<and> navigateToPage idle3 4 = idle3"
proof -
  note t = navigateToPage_idle [OF idle3_fields(1) idle3_fields(2)]
  from t [of 2] t [of 0] t [of 4] numPages_doc3 show ?thesis by simp
qed

text \<open>
  C10. With no document held, \<open>navigateToPage P\<close> returns the state as it was for every
  \<open>P\<close>, and so does a call of \<open>renderCurrentPage\<close>, which in particular does not set the
  render-in-progress flag.
\<close>

theorem no_document_noop:
  assumes "pdfDoc s = None"
  shows "navigateToPage s n = s \<and> renderCurrentPage s = s
       \<and> pageRendering (renderCurrentPage s) = pageRendering s"
  using assms by (simp add: navigateToPage_def renderCurrentPage_def)

theorem no_document_noop_witness:
  "navigateToPage (constructor blankPage) 1 = constructor blankPage
   \<and> renderCurrentPage (constructor blankPage) = constructor blankPage
   \<and> \<not> pageRendering (renderCurrentPage (constructor blankPage))"
  using no_document_noop [OF constructor_blankPage(1), of 1] constructor_blankPage(2)
  by simp

text \<open>
  C2. While a render is in progress, valid navigation requests start no render: each
  only overwrites the pending slot, whether it arrives before the page handle or before
  the text content. When the render completes (on either exit), one render starts, for
  the page of the last request; the library is asked for no other page.
\<close>

theorem pending_requests_coalesce:
  assumes d: "pdfDoc s = Some d" and r: "pageRendering s"
    and v: "\<forall>p\<in>set (ps @ qs). 1 \<le> p \<and> p \<le> numPages d" and ne: "ps @ qs \<noteq> []"
  shows "(ps \<noteq> [] \<longrightarrow>
            foldl navigateToPage s ps = s\<lparr>pageNumPending := Some (last ps)\<rparr>
          \<and> calls (renderCurrentPage_gotPage (foldl navigateToPage s ps) Rejected) =
              calls s @ [GetPage d (last ps)]
          \<and> pageNum (renderCurrentPage_gotPage (foldl navigateToPage s ps) Rejected) = last ps
          \<and> pageNumPending (renderCurrentPage_gotPage (foldl navigateToPage s ps) Rejected) = None)
       \<and> calls (foldl navigateToPage
                  (renderCurrentPage_gotPage (foldl navigateToPage s ps) (Fulfilled pg)) qs) =
           calls s @ [GetTextContent pg textContentParams]
       \<and> pageNum (foldl navigateToPage
                  (renderCurrentPage_gotPage (foldl navigateToPage s ps) (Fulfilled pg)) qs) =
           pageNum s
       \<and> pageNumPending (foldl navigateToPage
                  (renderCurrentPage_gotPage (foldl navigateToPage s ps) (Fulfilled pg)) qs) =
           Some (last (ps @ qs))
       \<and> calls (renderCurrentPage_gotText (foldl navigateToPage
                  (renderCurrentPage_gotPage (foldl navigateToPage s ps) (Fulfilled pg)) qs) res) =
           calls s @ [GetTextContent pg textContentParams, GetPage d (last (ps @ qs))]
       \<and> pageNum (renderCurrentPage_gotText (foldl navigateToPage
                  (renderCurrentPage_gotPage (foldl navigateToPage s ps) (Fulfilled pg)) qs) res) =
           last (ps @ qs)
       \<and> pageRendering (renderCurrentPage_gotText (foldl navigateToPage
                  (renderCurrentPage_gotPage (foldl navigateToPage s ps) (Fulfilled pg)) qs) res)
       \<and> pageNumPending (renderCurrentPage_gotText (foldl navigateToPage
                  (renderCurrentPage_gotPage (foldl navigateToPage s ps) (Fulfilled pg)) qs) res) =
           None"
proof -
  let ?s1 = "foldl navigateToPage s ps"
  let ?s2 = "renderCurrentPage_gotPage ?s1 (Fulfilled pg)"
  let ?s3 = "foldl navigateToPage ?s2 qs"
  have vp: "\<forall>p\<in>set ps. 1 \<le> p \<and> p \<le> numPages d"
    and vq: "\<forall>p\<in>set qs. 1 \<le> p \<and> p \<le> numPages d"
    using v by simp_all
  have s1: "?s1 = (if ps = [] then s else s\<lparr>pageNumPending := Some (last ps)\<rparr>)"
    using d r vp by (rule foldl_navigateToPage_rendering)
  have d2: "pdfDoc ?s2 = Some d" and r2: "pageRendering ?s2"
    using d r by (simp_all add: s1 gotPage_Fulfilled_fields)
  have s3: "?s3 = (if qs = [] then ?s2 else ?s2\<lparr>pageNumPending := Some (last qs)\<rparr>)"
    using d2 r2 vq by (rule foldl_navigateToPage_rendering)
  have lastv: "1 \<le> last (ps @ qs) \<and> last (ps @ qs) \<le> numPages d"
    using v ne last_in_set by blast
  have lastp: "ps \<noteq> [] \<Longrightarrow> 1 \<le> last ps \<and> last ps \<le> numPages d"
    using vp last_in_set by blast
  have f1: "pageNumPending ?s1 = (if ps = [] then pageNumPending s else Some (last ps))"
    "calls ?s1 = calls s" "pageNum ?s1 = pageNum s"
    by (simp_all add: s1)
  have f3: "pageNumPending ?s3 = (if qs = [] then pageNumPending ?s2 else Some (last qs))"
    "calls ?s3 = calls ?s2" "pageNum ?s3 = pageNum ?s2" "pdfDoc ?s3 = pdfDoc ?s2"
    by (simp_all add: s3)
  have p3: "pageNumPending ?s3 = Some (last (ps @ qs))"
    using ne by (simp add: f3 gotPage_Fulfilled_fields f1)
  have c3: "calls ?s3 = calls s @ [GetTextContent pg textContentParams]"
    by (simp add: f3 gotPage_Fulfilled_fields f1)
  have n3: "pageNum ?s3 = pageNum s"
    by (simp add: f3 gotPage_Fulfilled_fields f1)
  have d3: "pdfDoc ?s3 = Some d"
    using d2 by (simp add: f3)
  have A: "ps \<noteq> [] \<longrightarrow>
            ?s1 = s\<lparr>pageNumPending := Some (last ps)\<rparr>
          \<and> calls (renderCurrentPage_gotPage ?s1 Rejected) = calls s @ [GetPage d (last ps)]
          \<and> pageNum (renderCurrentPage_gotPage ?s1 Rejected) = last ps
          \<and> pageNumPending (renderCurrentPage_gotPage ?s1 Rejected) = None"
    using d lastp by (simp add: s1 gotPage_Rejected_fields)
  have B: "calls (renderCurrentPage_gotText ?s3 res) =
             calls s @ [GetTextContent pg textContentParams, GetPage d (last (ps @ qs))]"
    "pageNum (renderCurrentPage_gotText ?s3 res) = last (ps @ qs)"
    "pageRendering (renderCurrentPage_gotText ?s3 res)"
    "pageNumPending (renderCurrentPage_gotText ?s3 res) = None"
    using lastv by (simp_all add: gotText_fields d3 p3 c3)
  show ?thesis using A B p3 c3 n3 by blast
qed

theorem pending_requests_coalesce_witness:
  "calls (renderCurrentPage_gotText
            (foldl navigateToPage
               (renderCurrentPage_gotPage (foldl navigateToPage busy3 [2])
                  (Fulfilled (PDFPageProxy 1))) [3, 2]) (Fulfilled [])) =
     calls busy3 @ [GetTextContent (PDFPageProxy 1) textContentParams, GetPage doc3 2]
   \<and> pageNum (renderCurrentPage_gotText
            (foldl navigateToPage
               (renderCurrentPage_gotPage (foldl navigateToPage busy3 [2])
                  (Fulfilled (PDFPageProxy 1))) [3, 2]) (Fulfilled [])) = 2
   \<and> calls (renderCurrentPage_gotPage (foldl navigateToPage busy3 [2]) Rejected) =
       calls busy3 @ [GetPage doc3 2]"
proof -
  have v: "\<forall>p\<in>set ([2] @ [3, 2]). 1 \<le> p \<and> p \<le> numPages doc3"
    by (simp add: doc3_def)
  have ne: "[2] @ [3, 2::int] \<noteq> []" by simp
  have l: "last ([2] @ [3, 2::int]) = 2" "last [2::int] = 2"
    by simp_all
  have n: "[2::int] \<noteq> []" by simp
  note t = pending_requests_coalesce [OF busy3_fields(1) busy3_fields(2) v ne,
      of "PDFPageProxy 1" "Fulfilled []", unfolded l]
  from t n show ?thesis by blast
qed

text \<open>
  C3. In every state the event loop reaches from the constructor, a page is pending only
  while the render-in-progress flag is set. The \<^verbatim>\<open>finally\<close> block of a completing
  render (reached on either exit) leaves no page pending; a page \<open>p\<close> that was pending is
  handed to \<open>navigateToPage\<close> once, with the slot already reset, so that at most one
  follow-up render starts, for \<open>p\<close>.
\<close>

theorem pending_only_while_rendering:
  assumes "run (start page) es = Some sys"
  shows "(pageNumPending (rd sys) \<noteq> None \<longrightarrow> pageRendering (rd sys))
       \<and> pageNumPending (renderCurrentPage_finally (rd sys)) = None
       \<and> pageNumPending (renderCurrentPage_gotPage (rd sys) Rejected) = None
       \<and> pageNumPending (renderCurrentPage_gotText (rd sys) r) = None
       \<and> (\<forall>p. pageNumPending (rd sys) = Some p \<longrightarrow>
             renderCurrentPage_finally (rd sys) =
               navigateToPage ((rd sys)\<lparr>pageRendering := False, pageNumPending := None\<rparr>) p
           \<and> (\<forall>d. pdfDoc (rd sys) = Some d \<longrightarrow>
                 calls (renderCurrentPage_finally (rd sys)) =
                   calls (rd sys)
                   @ (if 1 \<le> p \<and> p \<le> numPages d then [GetPage d p] else [])))"
proof -
  have inv: "pageNumPending (rd sys) \<noteq> None \<longrightarrow> pageRendering (rd sys)"
    using run_inv [OF assms] by (simp add: start_inv)
  show ?thesis
    using inv finally_fields(1) gotPage_Rejected_fields(1) gotText_fields(1)
      finally_pending finally_calls_pending
    by blast
qed

theorem pending_only_while_rendering_witness:
  "\<exists>sys. run (start blankPage)
            [FileSelected (Some 0), FileRead (Fulfilled []), DocumentOpened (Fulfilled doc3),
             NavigateTo 2, NavigateTo 3] = Some sys
     \<and> pageNumPending (rd sys) = Some 3 \<and> pageRendering (rd sys)
     \<and> pageNumPending (renderCurrentPage_gotText (rd sys) (Fulfilled [])) = None
     \<and> calls (renderCurrentPage_finally (rd sys)) = calls (rd sys) @ [GetPage doc3 3]"
proof -
  have "\<exists>sys. run (start blankPage)
            [FileSelected (Some 0), FileRead (Fulfilled []), DocumentOpened (Fulfilled doc3),
             NavigateTo 2, NavigateTo 3] = Some sys
     \<and> pageNumPending (rd sys) = Some 3 \<and> pdfDoc (rd sys) = Some doc3"
    by (simp add: start_def constructor_def initDarkMode_def updateDarkModeButton_def
        savedDarkMode_def blankPage_def updateUI_def loadPDF_gotBuffer_def
        loadPDF_gotDocument_def renderCurrentPage_def navigated_def navigateToPage_def
        doc3_def Let_def)
  then obtain sys where
    r: "run (start blankPage)
            [FileSelected (Some 0), FileRead (Fulfilled []), DocumentOpened (Fulfilled doc3),
             NavigateTo 2, NavigateTo 3] = Some sys"
    and p: "pageNumPending (rd sys) = Some 3" and d: "pdfDoc (rd sys) = Some doc3"
    by blast
  note t = pending_only_while_rendering [OF r, of "Fulfilled []"]
  from t p have 1: "pageRendering (rd sys)" by simp
  from t have 2: "pageNumPending (renderCurrentPage_gotText (rd sys) (Fulfilled [])) = None"
    by blast
  from t p d have "calls (renderCurrentPage_finally (rd sys)) =
      calls (rd sys) @ (if 1 \<le> (3::int) \<and> 3 \<le> numPages doc3 then [GetPage doc3 3] else [])"
    by blast
  then have 3: "calls (renderCurrentPage_finally (rd sys)) = calls (rd sys) @ [GetPage doc3 3]"
    by (simp add: numPages_doc3)
  from r p 1 2 3 show ?thesis by blast
qed

section \<open>Render cycle and load failures\<close>

text \<open>
  C4. A render cycle leaves by one of two exits: the page request is rejected, or the
  text-content request settles (fulfilled or rejected). On each exit the flag is
  released: with no page pending the flag is clear afterwards and a valid navigation is
  carried out again; the flag can only be set afterwards because a pending page has
  started the next cycle, which shows as one new page request. A rejected request is
  logged on the console, and a rejected page request leaves the displayed pages as they
  were.
\<close>

theorem render_exit_releases_flag:
  "(\<forall>s' \<in> {renderCurrentPage_gotPage s Rejected, renderCurrentPage_gotText s r}.
      (pageNumPending s = None \<longrightarrow>
         \<not> pageRendering s'
       \<and> (\<forall>d n. pdfDoc s = Some d \<and> 1 \<le> n \<and> n \<le> numPages d \<longrightarrow>
                pageNum (navigateToPage s' n) = n))
    \<and> (pageRendering s' \<longrightarrow>
         (\<exists>d p. pdfDoc s = Some d \<and> pageNumPending s = Some p
                \<and> 1 \<le> p \<and> p \<le> numPages d
                \<and> pageNum s' = p \<and> calls s' = calls s @ [GetPage d p]))
    \<and> pageNumPending s' = None
    \<and> pdfDoc s' = pdfDoc s)
   \<and> console (renderCurrentPage_gotPage s Rejected) =
        console s @ [ConsoleError (lit ''Error rendering page:'')]
   \<and> container (renderCurrentPage_gotPage s Rejected) = container s
   \<and> console (renderCurrentPage_gotText s Rejected) =
        console s @ [ConsoleError (lit ''Error rendering text content:'')]"
proof -
  have c1: "console (renderCurrentPage_gotText s Rejected) =
        console s @ [ConsoleError (lit ''Error rendering text content:'')]"
    by (simp add: renderCurrentPage_gotText_def renderTextContent_gotText_def Let_def
        finally_fields split: option.splits)
  have c2: "container (renderCurrentPage_gotPage s Rejected) = container s"
    by (simp add: renderCurrentPage_gotPage_def finally_container)
  have c3: "console (renderCurrentPage_gotPage s Rejected) =
        console s @ [ConsoleError (lit ''Error rendering page:'')]"
    by (rule gotPage_Rejected_fields)
  have exit: "(pageNumPending s = None \<longrightarrow>
         \<not> pageRendering s'
       \<and> (\<forall>d n. pdfDoc s = Some d \<and> 1 \<le> n \<and> n \<le> numPages d \<longrightarrow>
                pageNum (navigateToPage s' n) = n))
    \<and> (pageRendering s' \<longrightarrow>
         (\<exists>d p. pdfDoc s = Some d \<and> pageNumPending s = Some p
                \<and> 1 \<le> p \<and> p \<le> numPages d
                \<and> pageNum s' = p \<and> calls s' = calls s @ [GetPage d p]))
    \<and> pageNumPending s' = None
    \<and> pdfDoc s' = pdfDoc s"
    if f: "pageNumPending s' = None" "pdfDoc s' = pdfDoc s"
      "pageRendering s' =
        (case (pdfDoc s, pageNumPending s) of
           (Some d, Some p) \<Rightarrow> 1 \<le> p \<and> p \<le> numPages d | _ \<Rightarrow> False)"
      "calls s' =
        (case (pdfDoc s, pageNumPending s) of
           (Some d, Some p) \<Rightarrow>
             if 1 \<le> p \<and> p \<le> numPages d then calls s @ [GetPage d p] else calls s
         | _ \<Rightarrow> calls s)"
      "pageNum s' =
        (case (pdfDoc s, pageNumPending s) of
           (Some d, Some p) \<Rightarrow> if 1 \<le> p \<and> p \<le> numPages d then p else pageNum s
         | _ \<Rightarrow> pageNum s)"
    for s'
  proof (cases "pdfDoc s")
    case None
    with f show ?thesis by simp
  next
    case (Some d)
    show ?thesis
    proof (cases "pageNumPending s")
      case None
      with f Some have idle: "\<not> pageRendering s'" and doc: "pdfDoc s' = Some d"
        by simp_all
      have "pageNum (navigateToPage s' n) = n" if "1 \<le> n" "n \<le> numPages d" for n
        using doc idle that by (rule navigateToPage_sets_pageNum)
      with f Some None idle show ?thesis by simp
    next
      case (Some p)
      with f \<open>pdfDoc s = Some d\<close> show ?thesis by simp
    qed
  qed
  note e1 = exit [OF gotPage_Rejected_fields(1,2,4,5,6)]
  note e2 = exit [OF gotText_fields, of r]
  have ball: "\<forall>s' \<in> {renderCurrentPage_gotPage s Rejected, renderCurrentPage_gotText s r}.
      (pageNumPending s = None \<longrightarrow>
         \<not> pageRendering s'
       \<and> (\<forall>d n. pdfDoc s = Some d \<and> 1 \<le> n \<and> n \<le> numPages d \<longrightarrow>
                pageNum (navigateToPage s' n) = n))
      \<and> (pageRendering s' \<longrightarrow>
           (\<exists>d p. pdfDoc s = Some d \<and> pageNumPending s = Some p
                  \<and> 1 \<le> p \<and> p \<le> numPages d
                  \<and> pageNum s' = p \<and> calls s' = calls s @ [GetPage d p]))
      \<and> pageNumPending s' = None
      \<and> pdfDoc s' = pdfDoc s"
  proof (rule ballI)
    fix s'
    assume "s' \<in> {renderCurrentPage_gotPage s Rejected, renderCurrentPage_gotText s r}"
    then consider (pageExit) "s' = renderCurrentPage_gotPage s Rejected"
      | (textExit) "s' = renderCurrentPage_gotText s r"
      by blast
    then show "(pageNumPending s = None \<longrightarrow>
         \<not> pageRendering s'
       \<and> (\<forall>d n. pdfDoc s = Some d \<and> 1 \<le> n \<and> n \<le> numPages d \<longrightarrow>
                pageNum (navigateToPage s' n) = n))
      \<and> (pageRendering s' \<longrightarrow>
           (\<exists>d p. pdfDoc s = Some d \<and> pageNumPending s = Some p
                  \<and> 1 \<le> p \<and> p \<le> numPages d
                  \<and> pageNum s' = p \<and> calls s' = calls s @ [GetPage d p]))
      \<and> pageNumPending s' = None
      \<and> pdfDoc s' = pdfDoc s"
    proof cases
      case pageExit
      show ?thesis unfolding pageExit by (rule e1)
    next
      case textExit
      show ?thesis unfolding textExit by (rule e2)
    qed
  qed
  from ball c3 c2 c1 show ?thesis by blast
qed

theorem render_exit_releases_flag_witness:
  "pageRendering busy3
   \<and> \<not> pageRendering (renderCurrentPage_gotPage busy3 Rejected)
   \<and> \<not> pageRendering (renderCurrentPage_gotText busy3 Rejected)
   \<and> \<not> pageRendering (renderCurrentPage_gotText busy3 (Fulfilled []))
   \<and> console (renderCurrentPage_gotPage busy3 Rejected) =
        [ConsoleError (lit ''Error rendering page:'')]"
proof -
  have e: "\<not> pageRendering s'"
    if "s' \<in> {renderCurrentPage_gotPage busy3 Rejected, renderCurrentPage_gotText busy3 r}"
    for s' r
    using render_exit_releases_flag [of busy3 r] that busy3_fields(3) by blast
  have c: "console (renderCurrentPage_gotPage busy3 Rejected) =
             console busy3 @ [ConsoleError (lit ''Error rendering page:'')]"
    using render_exit_releases_flag [of busy3 Rejected] by blast
  have 1: "\<not> pageRendering (renderCurrentPage_gotPage busy3 Rejected)"
    by (rule e [of _ Rejected]) simp
  have 2: "\<not> pageRendering (renderCurrentPage_gotText busy3 Rejected)"
    by (rule e [of _ Rejected]) simp
  have 3: "\<not> pageRendering (renderCurrentPage_gotText busy3 (Fulfilled []))"
    by (rule e [of _ "Fulfilled []"]) simp
  from busy3_fields(2) 1 2 3 c show ?thesis
    by (simp only: busy3_fields(4) append_Nil simp_thms)
qed

text \<open>
  C5. When the library rejects the document, or the file cannot be read, the
  \<^verbatim>\<open>catch\<close> block of \<open>loadPDF\<close> runs: the state after the attempt is the state before
  it with one error entry added to the console and one alert shown (and, when the file
  was read, the one call of the library). The document handle, the page number and every
  other field are as before.
\<close>

theorem loadPDF_rejected_keeps_state:
  "loadPDF_gotDocument s Rejected =
     s\<lparr>console := console s @ [ConsoleError (lit ''Error loading PDF:'')],
       alerts := alerts s @ [lit ''Error loading PDF file. Please try another file.'']\<rparr>
   \<and> loadPDF_gotBuffer s Rejected =
     s\<lparr>console := console s @ [ConsoleError (lit ''Error loading PDF:'')],
       alerts := alerts s @ [lit ''Error loading PDF file. Please try another file.'']\<rparr>
   \<and> map_option rd (run sys [FileSelected (Some f), FileRead (Fulfilled buf),
                               DocumentOpened Rejected]) =
     Some ((rd sys)\<lparr>console := console (rd sys) @ [ConsoleError (lit ''Error loading PDF:'')],
             alerts := alerts (rd sys)
                       @ [lit ''Error loading PDF file. Please try another file.''],
             calls := calls (rd sys) @ [GetDocument buf]\<rparr>)
   \<and> map_option rd (run sys [FileSelected (Some f), FileRead Rejected]) =
     Some ((rd sys)\<lparr>console := console (rd sys) @ [ConsoleError (lit ''Error loading PDF:'')],
             alerts := alerts (rd sys)
                       @ [lit ''Error loading PDF file. Please try another file.'']\<rparr>)"
  by (simp add: loadPDF_gotDocument_def loadPDF_gotBuffer_def loadPDF_catch_def)

theorem loadPDF_rejected_keeps_state_witness:
  "pdfDoc (loadPDF_gotDocument idle3 Rejected) = Some doc3
   \<and> pageNum (loadPDF_gotDocument idle3 Rejected) = 1
   \<and> alerts (loadPDF_gotDocument idle3 Rejected) =
       [lit ''Error loading PDF file. Please try another file.'']"
proof -
  have "loadPDF_gotDocument idle3 Rejected =
     idle3\<lparr>console := console idle3 @ [ConsoleError (lit ''Error loading PDF:'')],
       alerts := alerts idle3 @ [lit ''Error loading PDF file. Please try another file.'']\<rparr>"
    using loadPDF_rejected_keeps_state [of idle3] by blast
  then show ?thesis by (simp add: idle3_fields sample_logs)
qed

section \<open>Controls, text runs, request options and dark mode\<close>

text \<open>
  C6, as stated, for a reader without a document: the page-info text would read
  "No document loaded". The script writes "No PDF loaded".
\<close>

theorem updateUI_no_document_text:
  "pdfDoc (constructor blankPage) = None
   \<and> pageInfo (updateUI (constructor blankPage)) = lit ''No PDF loaded''
   \<and> pageInfo (updateUI (constructor blankPage)) \<noteq> lit ''No document loaded''"
  by (simp add: constructor_def updateUI_def initDarkMode_def
        updateDarkModeButton_def savedDarkMode_def blankPage_def lit_def)

text \<open>
  C6, amended. \<open>updateUI\<close> changes the page-info text and the \<open>disabled\<close> property of the two
  buttons and nothing else. Without a document the text is "No PDF loaded" and both
  buttons are disabled; with a document of \<open>N\<close> pages on page \<open>X\<close> the text is
  "Page X of N", the previous button is disabled iff \<open>X \<le> 1\<close> and the next button iff
  \<open>X \<ge> N\<close>.
\<close>

theorem updateUI_reflects:
  "(pdfDoc s = None \<longrightarrow>
      updateUI s = s\<lparr>pageInfo := lit ''No PDF loaded'', prevDisabled := True,
                     nextDisabled := True\<rparr>)
   \<and> (pdfDoc s = Some d \<longrightarrow>
      updateUI s = s\<lparr>pageInfo := lit ''Page '' @ numberToString (pageNum s) @ lit '' of ''
                                   @ numberToString (numPages d),
                     prevDisabled := (pageNum s \<le> 1),
                     nextDisabled := (pageNum s \<ge> numPages d)\<rparr>)"
  by (simp add: updateUI_def)

theorem updateUI_reflects_witness:
  "pageInfo (updateUI (constructor blankPage)) = lit ''No PDF loaded''
   \<and> prevDisabled (updateUI (constructor blankPage))
   \<and> nextDisabled (updateUI (constructor blankPage))
   \<and> pageInfo (updateUI idle3) = lit ''Page 1 of 3''
   \<and> prevDisabled (updateUI idle3) \<and> \<not> nextDisabled (updateUI idle3)"
proof -
  have t: "lit ''Page '' @ numberToString 1 @ lit '' of '' @ numberToString 3 =
           lit ''Page 1 of 3''"
    by (simp add: lit_def numberToString_def)
  from updateUI_reflects [of "constructor blankPage" doc3] constructor_blankPage(1)
  have a: "updateUI (constructor blankPage) =
      (constructor blankPage)\<lparr>pageInfo := lit ''No PDF loaded'', prevDisabled := True,
                               nextDisabled := True\<rparr>"
    by simp
  from updateUI_reflects [of idle3 doc3] idle3_fields(1)
  have b: "updateUI idle3 =
      idle3\<lparr>pageInfo := lit ''Page '' @ numberToString (pageNum idle3) @ lit '' of ''
                          @ numberToString (numPages doc3),
            prevDisabled := (pageNum idle3 \<le> 1),
            nextDisabled := (pageNum idle3 \<ge> numPages doc3)\<rparr>"
    by simp
  show ?thesis unfolding a unfolding b by (simp add: idle3_fields numPages_doc3 t)
qed

text \<open>
  C7, as stated, for the run made of an en dash followed by an em dash: the em dash is
  one of the other characters of the run, and it does not appear unchanged.
\<close>

theorem remapStr_other_dash:
  "0x2013 \<in> set [0x2013, 0x2014 :: 16 word]
   \<and> remapStr [0x2013, 0x2014] = [0x201A, 0xC4, 0xEC, 0x201A, 0xC4, 0xEE]
   \<and> remapStr [0x2013, 0x2014] \<noteq> enDashOnly [0x2013, 0x2014]"
  by (simp add: remapStr_def enDashOnly_def enDashSub_def emDashSub_def figureDashSub_def)

text \<open>
  C7, amended. The post-processed string is the run with every en dash replaced by its
  fixed sequence, every em dash and every figure dash replaced by theirs, and every other
  code unit kept, in the original order.
\<close>

theorem remapStr_substitutes: "remapStr s = concat (map substUnit s)"
  by (induction s) (simp_all add: remapStr_Nil remapStr_Cons)

theorem remapStr_substitutes_witness:
  "remapStr [0x41, 0x2013, 0x42] = [0x41, 0x201A, 0xC4, 0xEC, 0x42]"
  using remapStr_substitutes [of "[0x41, 0x2013, 0x42]"]
  by (simp add: substUnit_def enDashSub_def)

text \<open>
  C8, as stated, for the render of page 1 of the sample document: the request would
  carry \<^verbatim>\<open>disableCombineTextItems: true\<close>. The request made carries \<^verbatim>\<open>false\<close>.
\<close>

theorem text_content_request_combines:
  "last (calls (renderCurrentPage_gotPage busy3 (Fulfilled (PDFPageProxy 1)))) =
     GetTextContent (PDFPageProxy 1)
       \<lparr>normalizeWhitespace = True, disableCombineTextItems = False\<rparr>
   \<and> last (calls (renderCurrentPage_gotPage busy3 (Fulfilled (PDFPageProxy 1)))) \<noteq>
     GetTextContent (PDFPageProxy 1)
       \<lparr>normalizeWhitespace = True, disableCombineTextItems = True\<rparr>"
  by (simp add: renderCurrentPage_gotPage_def textContentParams_def)

text \<open>
  C8, amended. When the page handle arrives, the render makes one call of the library:
  the text-content request for that page, with \<^verbatim>\<open>normalizeWhitespace: true\<close> and
  \<^verbatim>\<open>disableCombineTextItems: false\<close> (combination of text items is left enabled).
\<close>

theorem text_content_request_options:
  "calls (renderCurrentPage_gotPage s (Fulfilled page)) =
     calls s @ [GetTextContent page
                  \<lparr>normalizeWhitespace = True, disableCombineTextItems = False\<rparr>]"
  by (simp add: renderCurrentPage_gotPage_def textContentParams_def)

theorem text_content_request_options_witness:
  "calls (renderCurrentPage_gotPage busy3 (Fulfilled (PDFPageProxy 1))) =
     [GetPage doc3 1,
      GetTextContent (PDFPageProxy 1)
        \<lparr>normalizeWhitespace = True, disableCombineTextItems = False\<rparr>]"
  using text_content_request_options [of busy3 "PDFPageProxy 1"]
  by (simp add: sample_logs)




end
